theory Spec2Isabelle
  imports Complex_Main
begin

section \<open>Feature columns of the wide-and-deep trainer (trainer/featurizer.py)\<close>

text \<open>
  The module builds the feature columns of a wide-and-deep model from the tables of
  the \<^verbatim>\<open>metadata\<close> module and from three flags of the experiment parameters.
  The feature-column library is used only through its constructors; each class of
  column the module creates or tests with \<^verbatim>\<open>isinstance\<close> is a constructor of the
  datatype \<open>column\<close> below, and the library's own validation of constructor arguments
  is outside the module. Python names that begin with an underscore lose it here.
\<close>

subsection \<open>Dictionaries\<close>

text \<open>
  A Python dict keeps its keys in insertion order, and assigning to a key that is
  already present keeps the key's position. A dict is an association list with
  distinct keys; \<open>dict_set\<close> is \<^verbatim>\<open>d[k] = v\<close> and \<open>dict_get\<close> is \<^verbatim>\<open>d[k]\<close>, with
  \<open>None\<close> where Python raises \<^verbatim>\<open>KeyError\<close>.
\<close>

type_synonym ('k, 'v) dict = "('k \<times> 'v) list"

fun dict_get :: "('k, 'v) dict \<Rightarrow> 'k \<Rightarrow> 'v option" where
  "dict_get [] k = None"
| "dict_get ((k', v) # d) k = (if k' = k then Some v else dict_get d k)"

fun dict_set :: "'k \<Rightarrow> 'v \<Rightarrow> ('k, 'v) dict \<Rightarrow> ('k, 'v) dict" where
  "dict_set k v [] = [(k, v)]"
| "dict_set k v ((k', v') # d) = (if k' = k then (k, v) # d else (k', v') # dict_set k v d)"

subsection \<open>The metadata module and the experiment parameters\<close>

text \<open>
  The module \<^verbatim>\<open>metadata\<close> is not part of the sources at hand, so its four tables are
  a parameter. The numeric table maps a feature name to its statistics (a dict from
  the statistic's name to a number), the identity table to a number of buckets, the
  vocabulary table to a vocabulary list and the hash table to a hash bucket size.
  Both records are extensible: the module and the parameters have other attributes,
  which the featurizer does not read.
\<close>

type_synonym stats = "(string, real) dict"

record metadata =
  NUMERIC_FEATURE_NAMES_WITH_STATS :: "(string, stats) dict"
  CATEGORICAL_FEATURE_NAMES_WITH_IDENTITY :: "(string, nat) dict"
  CATEGORICAL_FEATURE_NAMES_WITH_VOCABULARY :: "(string, string list) dict"
  CATEGORICAL_FEATURE_NAMES_WITH_HASH_BUCKET :: "(string, nat) dict"

record args =
  embed_categorical_columns :: bool
  use_indicator_columns :: bool
  use_wide_columns :: bool

subsection \<open>Feature columns\<close>

text \<open>
  The closure \<^verbatim>\<open>_z_score\<close> computes \<^verbatim>\<open>(value - mean) / math.sqrt(variance)\<close>;
  it is represented by the two values it captures. They are whatever the numeric
  table holds under the keys the source reads, hence of type \<open>stats\<close>.
\<close>

datatype normalizer_fn = Z_score stats stats

datatype column =
    NumericColumn string "normalizer_fn option"
  | IdentityCategoricalColumn string nat
  | VocabularyListCategoricalColumn string "string list"
  | HashedCategoricalColumn string nat
  | BucketizedColumn column "int list"
  | CrossedColumn "string list" nat
  | EmbeddingColumn column nat
  | IndicatorColumn column

datatype error = KeyError string | OverflowError

text \<open>The \<^verbatim>\<open>isinstance\<close> tests of the module, one per class.\<close>

fun isNumericColumn :: "column \<Rightarrow> bool" where
  "isNumericColumn (NumericColumn key normalizer) = True"
| "isNumericColumn column = False"

fun isIdentityCategoricalColumn :: "column \<Rightarrow> bool" where
  "isIdentityCategoricalColumn (IdentityCategoricalColumn key num_buckets) = True"
| "isIdentityCategoricalColumn column = False"

fun isVocabularyListCategoricalColumn :: "column \<Rightarrow> bool" where
  "isVocabularyListCategoricalColumn (VocabularyListCategoricalColumn key vocabulary_list) = True"
| "isVocabularyListCategoricalColumn column = False"

fun isHashedCategoricalColumn :: "column \<Rightarrow> bool" where
  "isHashedCategoricalColumn (HashedCategoricalColumn key hash_bucket_size) = True"
| "isHashedCategoricalColumn column = False"

fun isBucketizedColumn :: "column \<Rightarrow> bool" where
  "isBucketizedColumn (BucketizedColumn source_column boundaries) = True"
| "isBucketizedColumn column = False"

fun isCrossedColumn :: "column \<Rightarrow> bool" where
  "isCrossedColumn (CrossedColumn keys hash_bucket_size) = True"
| "isCrossedColumn column = False"

fun isEmbeddingColumn :: "column \<Rightarrow> bool" where
  "isEmbeddingColumn (EmbeddingColumn categorical_column dimension) = True"
| "isEmbeddingColumn column = False"

fun isIndicatorColumn :: "column \<Rightarrow> bool" where
  "isIndicatorColumn (IndicatorColumn categorical_column) = True"
| "isIndicatorColumn column = False"

subsection \<open>The embedding dimension\<close>

text \<open>
  \<^verbatim>\<open>math.ceil(math.sqrt(vocab_size))\<close> is computed in double precision. The int is
  converted to the nearest double, ties to even, and the conversion raises
  \<^verbatim>\<open>OverflowError\<close> when that double would be \<open>2 ^ 1024\<close> or more;
  \<^verbatim>\<open>math.sqrt\<close> returns the double nearest to the square root; \<^verbatim>\<open>math.ceil\<close>
  returns the ceiling of that double as an int. The three steps are written on
  natural numbers.

  \<open>float_of_int n\<close> is the value of the double nearest to \<open>n\<close>: \<open>n\<close> rounded to 53
  significant bits.
\<close>

fun bit_length :: "nat \<Rightarrow> nat" where
  "bit_length n = (if n = 0 then 0 else Suc (bit_length (n div 2)))"

definition float_of_int :: "nat \<Rightarrow> error + nat" where
  "float_of_int n =
     (let e = bit_length n - 53;
          q = n div 2 ^ e;
          r = n mod 2 ^ e;
          q = (if 2 ^ e < 2 * r \<or> (2 * r = 2 ^ e \<and> odd q) then q + 1 else q);
          x = q * 2 ^ e
      in if 2 ^ 1024 \<le> x then Inl OverflowError else Inr x)"

text \<open>
  \<open>ceil_float_sqrt x\<close> is the ceiling of the double nearest to the square root of
  the double \<open>x\<close>. With \<open>k\<close> the integer square root, a square has the root \<open>k\<close>,
  which is a double. Otherwise the root lies strictly between \<open>k\<close> and \<open>k + 1\<close>,
  where the doubles are \<open>2 ^ (p - 52)\<close> apart for \<open>2 ^ p \<le> k < 2 ^ (p + 1)\<close>. For
  \<open>p < 52\<close> both \<open>k\<close> and \<open>k + 1\<close> are doubles, and the ceiling is \<open>k\<close> exactly when
  the root rounds to \<open>k\<close>, that is when it is below \<open>k + 2 ^ (p - 53)\<close>. For larger
  \<open>p\<close> the doubles around the root are the multiples \<open>lo\<close> and \<open>lo + u\<close> of the
  spacing \<open>u\<close>, and the result is the nearer one. A tie cannot occur.
\<close>

fun floor_sqrt :: "nat \<Rightarrow> nat" where
  "floor_sqrt n =
     (if n < 2 then n
      else (let r = 2 * floor_sqrt (n div 4)
            in if (r + 1) * (r + 1) \<le> n then r + 1 else r))"

definition ceil_float_sqrt :: "nat \<Rightarrow> nat" where
  "ceil_float_sqrt x =
     (let k = floor_sqrt x
      in if k * k = x then k
         else (let p = bit_length k - 1
               in if p < 52
                  then (if x * 2 ^ (106 - 2 * p) <
                           (k * 2 ^ (53 - p) + 1) * (k * 2 ^ (53 - p) + 1)
                        then k else k + 1)
                  else (let u = 2 ^ (p - 52);
                            lo = (k div u) * u
                        in if 4 * x < (2 * lo + u) * (2 * lo + u) then lo else lo + u)))"

definition math_ceil_sqrt :: "nat \<Rightarrow> error + nat" where
  "math_ceil_sqrt vocab_size =
     (case float_of_int vocab_size of
        Inl e \<Rightarrow> Inl e
      | Inr x \<Rightarrow> Inr (ceil_float_sqrt x))"

declare bit_length.simps [simp del]

declare floor_sqrt.simps [simp del]

subsection \<open>_create_feature_columns\<close>

text \<open>
  The numeric loop reads \<^verbatim>\<open>metadata.NUMERIC_FEATURE_NAMES_WITH_STATS['mean']\<close> and
  \<^verbatim>\<open>[...]['var']\<close>: both keys are looked up in the table of feature names, whatever
  the feature of the iteration is, and a \<^verbatim>\<open>KeyError\<close> of either lookup leaves the
  column without normalizer. The closures share the variables of the enclosing
  function, which every iteration assigns the same values.
\<close>

definition numeric_normalizer_fn :: "(string, stats) dict \<Rightarrow> normalizer_fn option" where
  "numeric_normalizer_fn table =
     (case dict_get table ''mean'' of
        None \<Rightarrow> None
      | Some mean \<Rightarrow>
          (case dict_get table ''var'' of
             None \<Rightarrow> None
           | Some variance \<Rightarrow> Some (Z_score mean variance)))"

definition create_feature_columns :: "'m metadata_scheme \<Rightarrow> (string, column) dict" where
  "create_feature_columns md =
     (let feature_columns = [];
          feature_columns =
            foldl (\<lambda>feature_columns feature_name.
                     dict_set feature_name
                       (NumericColumn feature_name
                          (numeric_normalizer_fn (NUMERIC_FEATURE_NAMES_WITH_STATS md)))
                       feature_columns)
              feature_columns (map fst (NUMERIC_FEATURE_NAMES_WITH_STATS md));
          feature_columns =
            foldl (\<lambda>feature_columns (feature_name, num_buckets).
                     dict_set feature_name
                       (IdentityCategoricalColumn feature_name num_buckets) feature_columns)
              feature_columns (CATEGORICAL_FEATURE_NAMES_WITH_IDENTITY md);
          feature_columns =
            foldl (\<lambda>feature_columns (feature_name, vocabulary_list).
                     dict_set feature_name
                       (VocabularyListCategoricalColumn feature_name vocabulary_list)
                       feature_columns)
              feature_columns (CATEGORICAL_FEATURE_NAMES_WITH_VOCABULARY md);
          feature_columns =
            foldl (\<lambda>feature_columns (feature_name, hash_bucket_size).
                     dict_set feature_name
                       (HashedCategoricalColumn feature_name hash_bucket_size)
                       feature_columns)
              feature_columns (CATEGORICAL_FEATURE_NAMES_WITH_HASH_BUCKET md)
      in feature_columns)"

subsection \<open>_extend_feature_columns\<close>

text \<open>
  An exception ends the function: \<open>then_do\<close> runs the rest of a computation on the
  value of its first part, or returns the error of the first part.
\<close>

definition then_do :: "error + 'a \<Rightarrow> ('a \<Rightarrow> error + 'b) \<Rightarrow> error + 'b" where
  "then_do m f = (case m of Inl e \<Rightarrow> Inl e | Inr x \<Rightarrow> f x)"

text \<open>
  One iteration of the loop over the dict: the three \<^verbatim>\<open>if\<close> statements on the class
  of the column, then the \<^verbatim>\<open>if\<close>/\<^verbatim>\<open>elif\<close> that appends the column itself. The
  \<^verbatim>\<open>elif\<close> belongs to the numeric test alone. Computing the dimension of an
  embedding can raise.
\<close>

definition extend_column ::
    "'a args_scheme \<Rightarrow> column list \<Rightarrow> column \<Rightarrow> error + column list" where
  "extend_column args extended_feature_columns column =
     then_do
       (case column of
          VocabularyListCategoricalColumn key vocabulary_list \<Rightarrow>
            then_do
              (if embed_categorical_columns args
               then then_do (math_ceil_sqrt (length vocabulary_list))
                      (\<lambda>dimension.
                         Inr (extended_feature_columns @ [EmbeddingColumn column dimension]))
               else Inr extended_feature_columns)
              (\<lambda>ext. Inr (if use_indicator_columns args
                           then ext @ [IndicatorColumn column] else ext))
        | _ \<Rightarrow> Inr extended_feature_columns)
       (\<lambda>ext.
     then_do
       (case column of
          IdentityCategoricalColumn key num_buckets \<Rightarrow>
            then_do
              (if embed_categorical_columns args
               then then_do (math_ceil_sqrt num_buckets)
                      (\<lambda>dimension. Inr (ext @ [EmbeddingColumn column dimension]))
               else Inr ext)
              (\<lambda>ext. Inr (if use_indicator_columns args
                           then ext @ [IndicatorColumn column] else ext))
        | _ \<Rightarrow> Inr ext)
       (\<lambda>ext.
     (let ext =
            (case column of
               HashedCategoricalColumn key hash_bucket_size \<Rightarrow>
                 (if use_indicator_columns args then ext @ [IndicatorColumn column] else ext)
             | _ \<Rightarrow> ext)
      in Inr (if isNumericColumn column then ext @ [column]
              else if use_wide_columns args then ext @ [column]
              else ext))))"

text \<open>The loop visits the dict in its order, each key with its value.\<close>

fun extend_loop ::
    "'a args_scheme \<Rightarrow> column list \<Rightarrow> (string, column) dict \<Rightarrow> error + column list" where
  "extend_loop args ext [] = Inr ext"
| "extend_loop args ext ((column_name, column) # feature_columns) =
     (case extend_column args ext column of
        Inl e \<Rightarrow> Inl e
      | Inr ext \<Rightarrow> extend_loop args ext feature_columns)"

text \<open>
  The four columns built before the loop read the keys \<^verbatim>\<open>'trip_miles'\<close>,
  \<^verbatim>\<open>'trip_seconds'\<close> and \<^verbatim>\<open>'company'\<close> of the dict, in this order; a missing key
  raises \<^verbatim>\<open>KeyError\<close>.
\<close>

definition extend_feature_columns ::
    "(string, column) dict \<Rightarrow> 'a args_scheme \<Rightarrow> error + column list" where
  "extend_feature_columns feature_columns args =
     (case dict_get feature_columns ''trip_miles'' of
        None \<Rightarrow> Inl (KeyError ''trip_miles'')
      | Some trip_miles \<Rightarrow>
     (case dict_get feature_columns ''trip_seconds'' of
        None \<Rightarrow> Inl (KeyError ''trip_seconds'')
      | Some trip_seconds \<Rightarrow>
     (case dict_get feature_columns ''company'' of
        None \<Rightarrow> Inl (KeyError ''company'')
      | Some company \<Rightarrow>
          (let trip_miles_buckets =
                 BucketizedColumn trip_miles [5, 10, 15, 20, 25, 30, 35, 40, 45, 50];
               trip_seconds_buckets = BucketizedColumn trip_seconds [900, 1800, 2700, 3600];
               trip_miles_x_trip_seconds =
                 CrossedColumn [''trip_miles'', ''trip_seconds''] 10000;
               company_embedded = EmbeddingColumn company 10;
               extended_feature_columns =
                 [trip_miles_buckets, trip_seconds_buckets, trip_miles_x_trip_seconds,
                  company_embedded]
           in extend_loop args extended_feature_columns feature_columns))))"

subsection \<open>_get_sparse_and_dense_columns and create_wide_and_deep_columns\<close>

definition get_sparse_and_dense_columns :: "column list \<Rightarrow> column list \<times> column list" where
  "get_sparse_and_dense_columns feature_columns =
     (let dense_columns =
            filter (\<lambda>column. isNumericColumn column \<or> isEmbeddingColumn column \<or>
                              isIndicatorColumn column) feature_columns;
          sparse_columns =
            filter (\<lambda>column. isVocabularyListCategoricalColumn column \<or>
                              isIdentityCategoricalColumn column \<or>
                              isBucketizedColumn column \<or> isCrossedColumn column)
              feature_columns
      in (sparse_columns, dense_columns))"

definition create_wide_and_deep_columns ::
    "'m metadata_scheme \<Rightarrow> 'a args_scheme \<Rightarrow> error + column list \<times> column list" where
  "create_wide_and_deep_columns md args =
     (let feature_columns = create_feature_columns md
      in case extend_feature_columns feature_columns args of
           Inl e \<Rightarrow> Inl e
         | Inr feature_columns \<Rightarrow> Inr (get_sparse_and_dense_columns feature_columns))"

subsection \<open>The kinds of the data model\<close>

text \<open>
  The specification's data model gives every descriptor one of eight kinds. A base
  column is one that \<open>create_feature_columns\<close> can put into the dict.
\<close>

datatype kind =
  Numeric | CategoricalIdentity | CategoricalVocabulary | CategoricalHashed |
  Bucketized | Crossed | Embedding | Indicator

fun kind_of :: "column \<Rightarrow> kind" where
  "kind_of (NumericColumn key normalizer) = Numeric"
| "kind_of (IdentityCategoricalColumn key num_buckets) = CategoricalIdentity"
| "kind_of (VocabularyListCategoricalColumn key vocabulary_list) = CategoricalVocabulary"
| "kind_of (HashedCategoricalColumn key hash_bucket_size) = CategoricalHashed"
| "kind_of (BucketizedColumn source_column boundaries) = Bucketized"
| "kind_of (CrossedColumn keys hash_bucket_size) = Crossed"
| "kind_of (EmbeddingColumn categorical_column dimension) = Embedding"
| "kind_of (IndicatorColumn categorical_column) = Indicator"

definition base_column :: "column \<Rightarrow> bool" where
  "base_column column =
     (isNumericColumn column \<or> isIdentityCategoricalColumn column \<or>
      isVocabularyListCategoricalColumn column \<or> isHashedCategoricalColumn column)"

text \<open>
  The embedding that the specification gives a column of the dict under the flag
  \<^verbatim>\<open>embed_categorical_columns\<close>: one for an identity or a vocabulary column, of
  dimension the ceiling of the real square root of its size, and none for any other
  column.
\<close>

fun categorical_embedding :: "column \<Rightarrow> column list" where
  "categorical_embedding (IdentityCategoricalColumn key num_buckets) =
     [EmbeddingColumn (IdentityCategoricalColumn key num_buckets)
        (nat \<lceil>sqrt (real num_buckets)\<rceil>)]"
| "categorical_embedding (VocabularyListCategoricalColumn key vocabulary_list) =
     [EmbeddingColumn (VocabularyListCategoricalColumn key vocabulary_list)
        (nat \<lceil>sqrt (real (length vocabulary_list))\<rceil>)]"
| "categorical_embedding column = []"

subsection \<open>What one iteration appends\<close>

text \<open>
  The size whose square root an iteration takes; the embedding it appends, with the
  dimension the code computes; whether its dimension cannot be computed; and the
  columns the iteration appends when it does not raise.
\<close>

fun column_vocab_size :: "column \<Rightarrow> nat" where
  "column_vocab_size (VocabularyListCategoricalColumn key vocabulary_list) = length vocabulary_list"
| "column_vocab_size (IdentityCategoricalColumn key num_buckets) = num_buckets"
| "column_vocab_size column = 0"

definition embedding_columns :: "column \<Rightarrow> column list" where
  "embedding_columns column =
     (if isVocabularyListCategoricalColumn column \<or> isIdentityCategoricalColumn column
      then (case math_ceil_sqrt (column_vocab_size column) of
              Inl e \<Rightarrow> []
            | Inr dimension \<Rightarrow> [EmbeddingColumn column dimension])
      else [])"

definition overflows :: "'a args_scheme \<Rightarrow> column \<Rightarrow> bool" where
  "overflows args column =
     (embed_categorical_columns args \<and>
      (isVocabularyListCategoricalColumn column \<or> isIdentityCategoricalColumn column) \<and>
      isl (math_ceil_sqrt (column_vocab_size column)))"

definition column_items :: "'a args_scheme \<Rightarrow> column \<Rightarrow> column list" where
  "column_items args column =
     (if embed_categorical_columns args then embedding_columns column else []) @
     (if use_indicator_columns args \<and>
         (isVocabularyListCategoricalColumn column \<or> isIdentityCategoricalColumn column \<or>
          isHashedCategoricalColumn column)
      then [IndicatorColumn column] else []) @
     (if isNumericColumn column \<or> use_wide_columns args then [column] else [])"

subsection \<open>A concrete metadata module\<close>

text \<open>
  Two numeric features with both statistics, an identity feature, the vocabulary
  feature \<^verbatim>\<open>company\<close> and a hashed feature; and the parameters with given flags.
\<close>

definition taxi_metadata :: metadata where
  "taxi_metadata =
     \<lparr>NUMERIC_FEATURE_NAMES_WITH_STATS =
        [(''trip_miles'', [(''mean'', 3), (''var'', 4)]),
         (''trip_seconds'', [(''mean'', 600), (''var'', 900)])],
      CATEGORICAL_FEATURE_NAMES_WITH_IDENTITY = [(''trip_start_hour'', 24)],
      CATEGORICAL_FEATURE_NAMES_WITH_VOCABULARY = [(''company'', [''a'', ''b'', ''c''])],
      CATEGORICAL_FEATURE_NAMES_WITH_HASH_BUCKET = [(''pickup_census_tract'', 100)]\<rparr>"

definition flags :: "bool \<Rightarrow> bool \<Rightarrow> bool \<Rightarrow> args" where
  "flags e i w =
     \<lparr>embed_categorical_columns = e, use_indicator_columns = i, use_wide_columns = w\<rparr>"

abbreviation taxi_miles :: column where
  "taxi_miles \<equiv> NumericColumn ''trip_miles'' None"

abbreviation taxi_seconds :: column where
  "taxi_seconds \<equiv> NumericColumn ''trip_seconds'' None"

abbreviation taxi_hour :: column where
  "taxi_hour \<equiv> IdentityCategoricalColumn ''trip_start_hour'' 24"

abbreviation taxi_company :: column where
  "taxi_company \<equiv> VocabularyListCategoricalColumn ''company'' [''a'', ''b'', ''c'']"

abbreviation taxi_tract :: column where
  "taxi_tract \<equiv> HashedCategoricalColumn ''pickup_census_tract'' 100"

abbreviation taxi_head :: "column list" where
  "taxi_head \<equiv>
     [BucketizedColumn taxi_miles [5, 10, 15, 20, 25, 30, 35, 40, 45, 50],
      BucketizedColumn taxi_seconds [900, 1800, 2700, 3600],
      CrossedColumn [''trip_miles'', ''trip_seconds''] 10000,
      EmbeddingColumn taxi_company 10]"

text \<open>
  The column a derived column is built from: the source of a bucketized column, the
  categorical column of an embedding or of an indicator.
\<close>

fun source_column :: "column \<Rightarrow> column option" where
  "source_column (BucketizedColumn source boundaries) = Some source"
| "source_column (EmbeddingColumn categorical_column dimension) = Some categorical_column"
| "source_column (IndicatorColumn categorical_column) = Some categorical_column"
| "source_column column = None"

text \<open>A metadata module whose feature \<^verbatim>\<open>company\<close> is hashed.\<close>

definition hashed_company_metadata :: metadata where
  "hashed_company_metadata =
     \<lparr>NUMERIC_FEATURE_NAMES_WITH_STATS =
        [(''trip_miles'', [(''mean'', 3), (''var'', 4)]),
         (''trip_seconds'', [(''mean'', 600), (''var'', 900)])],
      CATEGORICAL_FEATURE_NAMES_WITH_IDENTITY = [],
      CATEGORICAL_FEATURE_NAMES_WITH_VOCABULARY = [],
      CATEGORICAL_FEATURE_NAMES_WITH_HASH_BUCKET = [(''company'', 100)]\<rparr>"

section \<open>Lemmas about the embedding dimension\<close>

lemma bit_length_le: "n < 2 ^ m \<Longrightarrow> bit_length n \<le> m"
proof (induction m arbitrary: n)
  case 0
  then show ?case by (simp add: bit_length.simps)
next
  case (Suc m)
  show ?case
  proof (cases "n = 0")
    case True
    then show ?thesis by (simp add: bit_length.simps)
  next
    case False
    from Suc.prems have "n div 2 < 2 ^ m" by simp
    then have "bit_length (n div 2) \<le> m" by (rule Suc.IH)
    with False show ?thesis by (subst bit_length.simps) simp
  qed
qed

lemma bit_length_power: "bit_length (2 ^ m) = Suc m"
proof (induction m)
  case 0
  show ?case by (simp add: bit_length.simps)
next
  case (Suc m)
  have "bit_length (2 ^ Suc m) = Suc (bit_length (2 ^ Suc m div 2))"
    by (subst bit_length.simps) simp
  with Suc show ?case by simp
qed

lemma float_of_int_small:
  assumes "n < 2 ^ 53"
  shows "float_of_int n = Inr n"
proof -
  have "bit_length n - 53 = 0" using bit_length_le [OF assms] by simp
  moreover have "n < 2 ^ 1024"
  proof -
    have "(2::nat) ^ 53 \<le> 2 ^ 1024" by (rule power_increasing) simp_all
    with assms show ?thesis by simp
  qed
  ultimately show ?thesis by (simp add: float_of_int_def Let_def)
qed

lemma math_ceil_sqrt_error: "math_ceil_sqrt n = Inl e \<Longrightarrow> e = OverflowError"
  by (auto simp add: math_ceil_sqrt_def float_of_int_def Let_def split: sum.splits if_splits)

lemma floor_sqrt_0: "floor_sqrt 0 = 0"
  by (simp add: floor_sqrt.simps)

lemma floor_sqrt_1: "floor_sqrt (Suc 0) = Suc 0"
  by (simp add: floor_sqrt.simps)

lemma math_ceil_sqrt_overflow: "math_ceil_sqrt (2 ^ 1024) = Inl OverflowError"
proof -
  have "bit_length (2 ^ 1024) = Suc 1024" by (rule bit_length_power)
  then have e: "bit_length (2 ^ 1024) - 53 = 972" by simp
  have "float_of_int (2 ^ 1024) = Inl OverflowError"
    unfolding float_of_int_def Let_def e by simp
  then show ?thesis unfolding math_ceil_sqrt_def by simp
qed

lemma math_ceil_sqrt_rounded: "math_ceil_sqrt (2 ^ 52 + 1) = Inr 67108864"
  by (simp add: math_ceil_sqrt_def float_of_int_def ceil_float_sqrt_def bit_length.simps
      floor_sqrt.simps Let_def)

lemma floor_sqrt_bounds:
  "floor_sqrt n * floor_sqrt n \<le> n \<and> n < (floor_sqrt n + 1) * (floor_sqrt n + 1)"
proof (induction n rule: floor_sqrt.induct)
  case (1 n)
  show ?case
  proof (cases "n < 2")
    case True
    then have "n = 0 \<or> n = 1" by auto
    then show ?thesis using floor_sqrt_0 floor_sqrt_1 by auto
  next
    case False
    define s where "s = floor_sqrt (n div 4)"
    from "1.IH" [OF False] have lo: "s * s \<le> n div 4" and hi: "n div 4 < (s + 1) * (s + 1)"
      by (simp_all add: s_def)
    have eq: "floor_sqrt n = (if (2 * s + 1) * (2 * s + 1) \<le> n then 2 * s + 1 else 2 * s)"
      using False by (subst floor_sqrt.simps) (simp add: s_def Let_def)
    have lo4: "4 * (s * s) \<le> n" using lo by arith
    have sq: "(s + 1) * (s + 1) = s * s + 2 * s + 1" by simp
    have hi4: "n < 4 * (s * s) + 8 * s + 4" using hi unfolding sq by arith
    have up: "(2 * s + 1 + 1) * (2 * s + 1 + 1) = 4 * (s * s) + 8 * s + 4" by simp
    have dn: "2 * s * (2 * s) = 4 * (s * s)" by simp
    show ?thesis
    proof (cases "(2 * s + 1) * (2 * s + 1) \<le> n")
      case True
      then have r: "floor_sqrt n = 2 * s + 1" by (simp only: eq if_True)
      show ?thesis unfolding r up using True hi4 by blast
    next
      case False
      then have r: "floor_sqrt n = 2 * s" by (simp only: eq if_False)
      have "2 * s * (2 * s) \<le> n" unfolding dn by (rule lo4)
      moreover have "n < (2 * s + 1) * (2 * s + 1)" using False by simp
      ultimately show ?thesis unfolding r by blast
    qed
  qed
qed

lemma nat_ceiling_sqrt_eqI:
  assumes "n \<le> m * m" and "m = 0 \<or> (m - 1) * (m - 1) < n"
  shows "nat \<lceil>sqrt (real n)\<rceil> = m"
proof -
  have up: "sqrt (real n) \<le> real m"
  proof -
    have "real n \<le> (real m)\<^sup>2" using assms(1)
      by (metis of_nat_le_iff of_nat_mult power2_eq_square)
    then show ?thesis
      by (simp add: real_le_lsqrt)
  qed
  show ?thesis
  proof (cases "m = 0")
    case True
    with assms(1) show ?thesis by simp
  next
    case False
    with assms(2) have lt: "(m - 1) * (m - 1) < n" by simp
    have "(real (m - 1))\<^sup>2 < real n" using lt
      by (metis of_nat_less_iff of_nat_mult power2_eq_square)
    then have low: "real (m - 1) < sqrt (real n)"
      by (simp add: real_less_rsqrt)
    have "\<lceil>sqrt (real n)\<rceil> = int m"
    proof (rule ceiling_unique)
      show "of_int (int m) - 1 < sqrt (real n)" using low False by (simp add: of_nat_diff)
      show "sqrt (real n) \<le> of_int (int m)" using up by simp
    qed
    then show ?thesis by simp
  qed
qed

text \<open>
  Up to \<open>2 ^ 52\<close> the double-precision computation returns the ceiling of the real
  square root.
\<close>

lemma ceil_float_sqrt_small:
  assumes "x \<le> 2 ^ 52"
  shows "ceil_float_sqrt x = nat \<lceil>sqrt (real x)\<rceil>"
proof -
  define k where "k = floor_sqrt x"
  have lo: "k * k \<le> x" and hi: "x < (k + 1) * (k + 1)"
    using floor_sqrt_bounds [of x] by (simp_all add: k_def)
  show ?thesis
  proof (cases "k * k = x")
    case True
    have "nat \<lceil>sqrt (real x)\<rceil> = k"
    proof (rule nat_ceiling_sqrt_eqI)
      show "x \<le> k * k" using True by simp
      show "k = 0 \<or> (k - 1) * (k - 1) < x"
      proof (cases "k = 0")
        case False
        then have "(k - 1) * (k - 1) < k * k"
          by (intro mult_strict_mono) simp_all
        with True show ?thesis by simp
      qed simp
    qed
    with True show ?thesis by (simp add: ceil_float_sqrt_def k_def Let_def)
  next
    case False
    with lo have gt: "k * k + 1 \<le> x" by simp
    have real: "nat \<lceil>sqrt (real x)\<rceil> = k + 1"
    proof (rule nat_ceiling_sqrt_eqI)
      show "x \<le> (k + 1) * (k + 1)" using hi by simp
      show "k + 1 = 0 \<or> (k + 1 - 1) * (k + 1 - 1) < x" using gt by simp
    qed
    have k26: "k < 2 ^ 26"
    proof (rule ccontr)
      assume "\<not> k < 2 ^ 26"
      then have h: "(2::nat) ^ 26 \<le> k" by simp
      have "(2::nat) ^ 26 * 2 ^ 26 \<le> k * k" by (rule mult_le_mono [OF h h])
      with gt assms show False by simp
    qed
    define p where "p = bit_length k - 1"
    have p25: "p \<le> 25" using bit_length_le [OF k26] by (simp add: p_def)
    define s where "s = 53 - p"
    have s28: "28 \<le> s" and exp: "106 - 2 * p = s + s" using p25 by (simp_all add: s_def)
    define T :: nat where "T = 2 ^ s"
    have "(2::nat) ^ 27 \<le> 2 ^ s" using s28 by (intro power_increasing) simp_all
    with k26 have kT: "2 * k + 1 \<le> T" by (simp add: T_def)
    have T1: "1 \<le> T" by (simp add: T_def)
    have "(k * T + 1) * (k * T + 1) = k * k * (T * T) + (2 * k * T + 1)"
      by (simp add: algebra_simps)
    also have "2 * k * T + 1 \<le> (2 * k + 1) * T" using T1 by (simp add: algebra_simps)
    also have "(2 * k + 1) * T \<le> T * T" using kT by (rule mult_le_mono1)
    also have "k * k * (T * T) + T * T = (k * k + 1) * (T * T)" by (simp add: algebra_simps)
    also have "(k * k + 1) * (T * T) \<le> x * (T * T)" using gt by (rule mult_le_mono1)
    finally have "(k * T + 1) * (k * T + 1) \<le> x * (T * T)" by simp
    then have no: "\<not> x * 2 ^ (106 - 2 * p) < (k * 2 ^ (53 - p) + 1) * (k * 2 ^ (53 - p) + 1)"
      by (simp add: exp power_add T_def s_def)
    have p52: "p < 52" using p25 by simp
    have unfold: "ceil_float_sqrt x =
        (if k * k = x then k
         else if p < 52
              then (if x * 2 ^ (106 - 2 * p) < (k * 2 ^ (53 - p) + 1) * (k * 2 ^ (53 - p) + 1)
                    then k else k + 1)
              else (if 4 * x < (2 * (k div 2 ^ (p - 52) * 2 ^ (p - 52)) + 2 ^ (p - 52)) *
                               (2 * (k div 2 ^ (p - 52) * 2 ^ (p - 52)) + 2 ^ (p - 52))
                    then k div 2 ^ (p - 52) * 2 ^ (p - 52)
                    else k div 2 ^ (p - 52) * 2 ^ (p - 52) + 2 ^ (p - 52)))"
      by (simp only: ceil_float_sqrt_def Let_def k_def p_def)
    have "ceil_float_sqrt x = k + 1"
      by (simp only: unfold False p52 no if_False if_True)
    with real show ?thesis by simp
  qed
qed

lemma math_ceil_sqrt_small:
  assumes "n \<le> 2 ^ 52"
  shows "math_ceil_sqrt n = Inr (nat \<lceil>sqrt (real n)\<rceil>)"
proof -
  have "(2::nat) ^ 52 < 2 ^ 53" by simp
  with assms have "n < 2 ^ 53" by (rule le_less_trans)
  then have "float_of_int n = Inr n" by (rule float_of_int_small)
  then show ?thesis by (simp add: math_ceil_sqrt_def ceil_float_sqrt_small [OF assms])
qed

text \<open>Beyond \<open>2 ^ 52\<close> it need not: the real ceiling at \<open>2 ^ 52 + 1\<close> is one more.\<close>

lemma real_ceil_sqrt_beyond: "nat \<lceil>sqrt (real (2 ^ 52 + 1))\<rceil> = 67108865"
  by (rule nat_ceiling_sqrt_eqI) simp_all

lemma math_ceil_sqrt_24: "math_ceil_sqrt 24 = Inr 5"
proof -
  have "nat \<lceil>sqrt (real 24)\<rceil> = 5" by (rule nat_ceiling_sqrt_eqI) simp_all
  then show ?thesis by (simp add: math_ceil_sqrt_small)
qed

lemma math_ceil_sqrt_3: "math_ceil_sqrt (Suc (Suc (Suc 0))) = Inr 2"
proof -
  have "nat \<lceil>sqrt (real (Suc (Suc (Suc 0))))\<rceil> = 2" by (rule nat_ceiling_sqrt_eqI) simp_all
  moreover have "Suc (Suc (Suc 0)) \<le> 2 ^ 52" by simp
  ultimately show ?thesis by (simp only: math_ceil_sqrt_small)
qed

section \<open>Lemmas about the loops\<close>

lemma then_do_Inl [simp]: "then_do (Inl e) f = Inl e"
  by (simp add: then_do_def)

lemma then_do_Inr [simp]: "then_do (Inr x) f = f x"
  by (simp add: then_do_def)

lemma extend_column_eq:
  "extend_column args ext column =
     (if overflows args column then Inl OverflowError
      else Inr (ext @ column_items args column))"
proof (cases "math_ceil_sqrt (column_vocab_size column)")
  case (Inl e)
  then have e: "math_ceil_sqrt (column_vocab_size column) = Inl OverflowError"
    using math_ceil_sqrt_error by blast
  show ?thesis
    using e
    by (cases column)
      (simp_all add: extend_column_def overflows_def column_items_def embedding_columns_def
        Let_def)
next
  case (Inr dimension)
  then show ?thesis
    by (cases column)
      (simp_all add: extend_column_def overflows_def column_items_def embedding_columns_def
        Let_def)
qed

lemma extend_loop_eq:
  "extend_loop args ext feature_columns =
     (if \<exists>p \<in> set feature_columns. overflows args (snd p) then Inl OverflowError
      else Inr (ext @ concat (map (\<lambda>(column_name, column). column_items args column)
                                feature_columns)))"
proof (induction feature_columns arbitrary: ext)
  case Nil
  show ?case by simp
next
  case (Cons p ps)
  obtain n c where p: "p = (n, c)" by (cases p)
  show ?case
    unfolding p by (simp add: extend_column_eq Cons.IH)
qed

lemma extend_feature_columns_alt:
  "extend_feature_columns feature_columns args =
     (case dict_get feature_columns ''trip_miles'' of
        None \<Rightarrow> Inl (KeyError ''trip_miles'')
      | Some trip_miles \<Rightarrow>
     (case dict_get feature_columns ''trip_seconds'' of
        None \<Rightarrow> Inl (KeyError ''trip_seconds'')
      | Some trip_seconds \<Rightarrow>
     (case dict_get feature_columns ''company'' of
        None \<Rightarrow> Inl (KeyError ''company'')
      | Some company \<Rightarrow>
          (if \<exists>p \<in> set feature_columns. overflows args (snd p) then Inl OverflowError
           else Inr ([BucketizedColumn trip_miles [5, 10, 15, 20, 25, 30, 35, 40, 45, 50],
                      BucketizedColumn trip_seconds [900, 1800, 2700, 3600],
                      CrossedColumn [''trip_miles'', ''trip_seconds''] 10000,
                      EmbeddingColumn company 10] @
                     concat (map (\<lambda>(column_name, column). column_items args column)
                               feature_columns))))))"
  by (simp add: extend_feature_columns_def extend_loop_eq Let_def split: option.splits)

lemma extend_feature_columns_InrD:
  assumes "extend_feature_columns feature_columns args = Inr extended"
  obtains trip_miles trip_seconds company where
    "dict_get feature_columns ''trip_miles'' = Some trip_miles"
    "dict_get feature_columns ''trip_seconds'' = Some trip_seconds"
    "dict_get feature_columns ''company'' = Some company"
    "\<forall>p \<in> set feature_columns. \<not> overflows args (snd p)"
    "extended =
       [BucketizedColumn trip_miles [5, 10, 15, 20, 25, 30, 35, 40, 45, 50],
        BucketizedColumn trip_seconds [900, 1800, 2700, 3600],
        CrossedColumn [''trip_miles'', ''trip_seconds''] 10000,
        EmbeddingColumn company 10] @
       concat (map (\<lambda>(column_name, column). column_items args column) feature_columns)"
  using assms
  by (auto simp add: extend_feature_columns_alt split: option.splits if_splits)

lemma extend_feature_columns_InrI:
  assumes "dict_get feature_columns ''trip_miles'' = Some trip_miles"
    and "dict_get feature_columns ''trip_seconds'' = Some trip_seconds"
    and "dict_get feature_columns ''company'' = Some company"
    and "\<forall>p \<in> set feature_columns. \<not> overflows args (snd p)"
  shows "extend_feature_columns feature_columns args =
     Inr ([BucketizedColumn trip_miles [5, 10, 15, 20, 25, 30, 35, 40, 45, 50],
           BucketizedColumn trip_seconds [900, 1800, 2700, 3600],
           CrossedColumn [''trip_miles'', ''trip_seconds''] 10000,
           EmbeddingColumn company 10] @
          concat (map (\<lambda>(column_name, column). column_items args column) feature_columns))"
  using assms by (simp add: extend_feature_columns_alt)

lemma filter_concat_map:
  "(\<And>x. x \<in> set xs \<Longrightarrow> filter P (f x) = g x) \<Longrightarrow>
     filter P (concat (map f xs)) = concat (map g xs)"
  by (induction xs) auto

lemma filter_concat_map_Nil:
  "(\<And>x. x \<in> set xs \<Longrightarrow> filter P (f x) = []) \<Longrightarrow> filter P (concat (map f xs)) = []"
  by (induction xs) auto

lemma set_concat_map_iff:
  "c \<in> set (concat (map f xs)) \<longleftrightarrow> (\<exists>x \<in> set xs. c \<in> set (f x))"
  by auto

lemma dict_set_member:
  "p \<in> set (dict_set k v d) \<Longrightarrow> p = (k, v) \<or> p \<in> set d"
  by (induction d) (auto split: if_splits)

lemma dict_set_pred:
  "\<forall>p \<in> set d. P (snd p) \<Longrightarrow> P v \<Longrightarrow> \<forall>p \<in> set (dict_set k v d). P (snd p)"
  using dict_set_member [of _ k v d] by fastforce

lemma foldl_dict_set_pred:
  assumes "\<forall>p \<in> set d. P (snd p)"
    and "\<And>d x. \<forall>p \<in> set d. P (snd p) \<Longrightarrow> \<forall>p \<in> set (f d x). P (snd p)"
  shows "\<forall>p \<in> set (foldl f d xs). P (snd p)"
  using assms(1)
proof (induction xs arbitrary: d)
  case Nil
  then show ?case by simp
next
  case (Cons x xs)
  show ?case
    using Cons.IH [OF assms(2) [OF Cons.prems]] by simp
qed

lemma create_feature_columns_base:
  "\<forall>p \<in> set (create_feature_columns md). base_column (snd p)"
  unfolding create_feature_columns_def Let_def
  apply (rule foldl_dict_set_pred)
   apply (rule foldl_dict_set_pred)
    apply (rule foldl_dict_set_pred)
     apply (rule foldl_dict_set_pred)
      apply simp
     apply (rule dict_set_pred, assumption, simp add: base_column_def)
    apply (simp only: split_beta, rule dict_set_pred, assumption, simp add: base_column_def)
   apply (simp only: split_beta, rule dict_set_pred, assumption, simp add: base_column_def)
  apply (simp only: split_beta, rule dict_set_pred, assumption, simp add: base_column_def)
  done

subsection \<open>The concrete metadata modules, evaluated\<close>

lemma taxi_feature_columns:
  "create_feature_columns taxi_metadata =
     [(''trip_miles'', taxi_miles), (''trip_seconds'', taxi_seconds),
      (''trip_start_hour'', taxi_hour), (''company'', taxi_company),
      (''pickup_census_tract'', taxi_tract)]"
  by (simp add: create_feature_columns_def taxi_metadata_def numeric_normalizer_fn_def)

lemma taxi_extended:
  "extend_feature_columns (create_feature_columns taxi_metadata) (flags e i w) =
     Inr (taxi_head @ [taxi_miles, taxi_seconds] @
          (if e then [EmbeddingColumn taxi_hour 5] else []) @
          (if i then [IndicatorColumn taxi_hour] else []) @
          (if w then [taxi_hour] else []) @
          (if e then [EmbeddingColumn taxi_company 2] else []) @
          (if i then [IndicatorColumn taxi_company] else []) @
          (if w then [taxi_company] else []) @
          (if i then [IndicatorColumn taxi_tract] else []) @
          (if w then [taxi_tract] else []))"
  by (simp add: taxi_feature_columns extend_feature_columns_def extend_column_def flags_def
      math_ceil_sqrt_24 math_ceil_sqrt_3)

lemma taxi_wide_and_deep:
  "create_wide_and_deep_columns taxi_metadata (flags e i w) =
     Inr ([BucketizedColumn taxi_miles [5, 10, 15, 20, 25, 30, 35, 40, 45, 50],
           BucketizedColumn taxi_seconds [900, 1800, 2700, 3600],
           CrossedColumn [''trip_miles'', ''trip_seconds''] 10000] @
          (if w then [taxi_hour, taxi_company] else []),
          [EmbeddingColumn taxi_company 10, taxi_miles, taxi_seconds] @
          (if e then [EmbeddingColumn taxi_hour 5] else []) @
          (if i then [IndicatorColumn taxi_hour] else []) @
          (if e then [EmbeddingColumn taxi_company 2] else []) @
          (if i then [IndicatorColumn taxi_company, IndicatorColumn taxi_tract] else []))"
  by (simp add: create_wide_and_deep_columns_def taxi_extended get_sparse_and_dense_columns_def)

lemma hashed_company_feature_columns:
  "create_feature_columns hashed_company_metadata =
     [(''trip_miles'', taxi_miles), (''trip_seconds'', taxi_seconds),
      (''company'', HashedCategoricalColumn ''company'' 100)]"
  by (simp add: create_feature_columns_def hashed_company_metadata_def numeric_normalizer_fn_def)

lemma hashed_company_wide_and_deep:
  "create_wide_and_deep_columns hashed_company_metadata (flags False i False) =
     Inr ([BucketizedColumn taxi_miles [5, 10, 15, 20, 25, 30, 35, 40, 45, 50],
           BucketizedColumn taxi_seconds [900, 1800, 2700, 3600],
           CrossedColumn [''trip_miles'', ''trip_seconds''] 10000],
          [EmbeddingColumn (HashedCategoricalColumn ''company'' 100) 10,
           taxi_miles, taxi_seconds] @
          (if i then [IndicatorColumn (HashedCategoricalColumn ''company'' 100)] else []))"
  by (simp add: create_wide_and_deep_columns_def hashed_company_feature_columns
      extend_feature_columns_def extend_column_def flags_def get_sparse_and_dense_columns_def)

lemma create_wide_and_deep_columns_InrD:
  assumes "create_wide_and_deep_columns md args = Inr (wide, deep)"
  obtains extended where
    "extend_feature_columns (create_feature_columns md) args = Inr extended"
    "get_sparse_and_dense_columns extended = (wide, deep)"
  using assms
  by (auto simp add: create_wide_and_deep_columns_def Let_def split: sum.splits)

section \<open>The dense and sparse classification\<close>

text \<open>
  C6. \<open>get_sparse_and_dense_columns\<close> returns, in the order of its argument, as
  sparse columns exactly the columns of kind vocabulary-categorical,
  identity-categorical, bucketized or crossed, and as dense columns exactly the
  columns of kind numeric, embedding or indicator.
\<close>

theorem sparse_dense_classification:
  "get_sparse_and_dense_columns feature_columns =
     (filter (\<lambda>column. kind_of column \<in>
                {CategoricalVocabulary, CategoricalIdentity, Bucketized, Crossed})
        feature_columns,
      filter (\<lambda>column. kind_of column \<in> {Numeric, Embedding, Indicator}) feature_columns)"
proof -
  have sparse:
    "(isVocabularyListCategoricalColumn column \<or> isIdentityCategoricalColumn column \<or>
      isBucketizedColumn column \<or> isCrossedColumn column) =
     (kind_of column \<in> {CategoricalVocabulary, CategoricalIdentity, Bucketized, Crossed})"
    for column by (cases column) simp_all
  have dense:
    "(isNumericColumn column \<or> isEmbeddingColumn column \<or> isIndicatorColumn column) =
     (kind_of column \<in> {Numeric, Embedding, Indicator})"
    for column by (cases column) simp_all
  show ?thesis
    by (simp only: get_sparse_and_dense_columns_def Let_def sparse dense)
qed

section \<open>The pass-through of categorical columns\<close>

lemma column_items_categorical:
  assumes "isIdentityCategoricalColumn c \<or> isVocabularyListCategoricalColumn c \<or>
           isHashedCategoricalColumn c"
  shows "c \<in> set (column_items args column) \<longleftrightarrow> use_wide_columns args \<and> c = column"
  using assms
  by (cases column; cases c)
    (auto simp add: column_items_def embedding_columns_def split: sum.splits)

text \<open>
  C7. When \<open>extend_feature_columns\<close> returns, a categorical column of the dict
  (identity, vocabulary or hashed, whichever derived columns it gave rise to) is an
  element of the extended list exactly when \<^verbatim>\<open>use_wide_columns\<close> is set: with the
  flag off no categorical column is passed through.
\<close>

theorem categorical_pass_through:
  assumes "extend_feature_columns feature_columns args = Inr extended"
    and "(column_name, column) \<in> set feature_columns"
    and "isIdentityCategoricalColumn column \<or> isVocabularyListCategoricalColumn column \<or>
         isHashedCategoricalColumn column"
  shows "column \<in> set extended \<longleftrightarrow> use_wide_columns args"
proof -
  from assms(1) obtain trip_miles trip_seconds company where
    ext: "extended =
      [BucketizedColumn trip_miles [5, 10, 15, 20, 25, 30, 35, 40, 45, 50],
       BucketizedColumn trip_seconds [900, 1800, 2700, 3600],
       CrossedColumn [''trip_miles'', ''trip_seconds''] 10000,
       EmbeddingColumn company 10] @
      concat (map (\<lambda>(column_name, column). column_items args column) feature_columns)"
    by (rule extend_feature_columns_InrD)
  have head: "column \<noteq> BucketizedColumn trip_miles [5, 10, 15, 20, 25, 30, 35, 40, 45, 50]"
    "column \<noteq> BucketizedColumn trip_seconds [900, 1800, 2700, 3600]"
    "column \<noteq> CrossedColumn [''trip_miles'', ''trip_seconds''] 10000"
    "column \<noteq> EmbeddingColumn company 10"
    using assms(3) by auto
  have "column \<in> set (concat (map (\<lambda>(column_name, column). column_items args column)
                               feature_columns)) \<longleftrightarrow> use_wide_columns args"
    using assms(2) column_items_categorical [OF assms(3), of args]
    by (fastforce simp add: set_concat_map_iff)
  with head show ?thesis by (simp add: ext)
qed

theorem categorical_pass_through_witness:
  "extend_feature_columns (create_feature_columns taxi_metadata) (flags True True False) =
     Inr (taxi_head @
          [taxi_miles, taxi_seconds, EmbeddingColumn taxi_hour 5, IndicatorColumn taxi_hour,
           EmbeddingColumn taxi_company 2, IndicatorColumn taxi_company,
           IndicatorColumn taxi_tract]) \<and>
   (''trip_start_hour'', taxi_hour) \<in> set (create_feature_columns taxi_metadata) \<and>
   isIdentityCategoricalColumn taxi_hour \<and>
   taxi_hour \<notin> set (taxi_head @
          [taxi_miles, taxi_seconds, EmbeddingColumn taxi_hour 5, IndicatorColumn taxi_hour,
           EmbeddingColumn taxi_company 2, IndicatorColumn taxi_company,
           IndicatorColumn taxi_tract]) \<and>
   \<not> use_wide_columns (flags True True False)"
proof -
  have ext:
    "extend_feature_columns (create_feature_columns taxi_metadata) (flags True True False) =
       Inr (taxi_head @
            [taxi_miles, taxi_seconds, EmbeddingColumn taxi_hour 5, IndicatorColumn taxi_hour,
             EmbeddingColumn taxi_company 2, IndicatorColumn taxi_company,
             IndicatorColumn taxi_tract])"
    by (simp add: taxi_extended)
  have mem: "(''trip_start_hour'', taxi_hour) \<in> set (create_feature_columns taxi_metadata)"
    by (simp add: taxi_feature_columns)
  have cat: "isIdentityCategoricalColumn taxi_hour \<or>
             isVocabularyListCategoricalColumn taxi_hour \<or> isHashedCategoricalColumn taxi_hour"
    by simp
  have off: "\<not> use_wide_columns (flags True True False)"
    by (simp add: flags_def)
  from categorical_pass_through [OF ext mem cat] off ext mem show ?thesis
    by simp
qed

section \<open>Normalization of the numeric columns\<close>

text \<open>
  C1. The specification says that a numeric feature whose statistics hold both a mean and a
  variance gets the z-score normalizer. The code looks the keys \<^verbatim>\<open>'mean'\<close> and
  \<^verbatim>\<open>'var'\<close> up in the table of feature names and not in the statistics of the
  feature: for the feature \<^verbatim>\<open>trip_miles\<close>, which has both statistics, the column
  is created without normalizer.
\<close>

theorem numeric_column_without_normalizer:
  "dict_get (NUMERIC_FEATURE_NAMES_WITH_STATS taxi_metadata) ''trip_miles'' =
     Some [(''mean'', 3), (''var'', 4)] \<and>
   dict_get (create_feature_columns taxi_metadata) ''trip_miles'' =
     Some (NumericColumn ''trip_miles'' None)"
  by (simp add: taxi_feature_columns) (simp add: taxi_metadata_def)

section \<open>The partition into wide and deep columns\<close>

text \<open>
  C2. The specification says that every column of the extended list is in exactly one of the
  two lists returned. With \<^verbatim>\<open>use_wide_columns\<close> set, the hashed column
  \<^verbatim>\<open>pickup_census_tract\<close> is appended to the extended list, and it is in neither
  the wide nor the deep list: no \<^verbatim>\<open>isinstance\<close> test of
  \<open>get_sparse_and_dense_columns\<close> names its class.
\<close>

theorem hashed_column_in_neither_list:
  "extend_feature_columns (create_feature_columns taxi_metadata) (flags False False True) =
     Inr (taxi_head @ [taxi_miles, taxi_seconds, taxi_hour, taxi_company, taxi_tract]) \<and>
   create_wide_and_deep_columns taxi_metadata (flags False False True) =
     Inr ([BucketizedColumn taxi_miles [5, 10, 15, 20, 25, 30, 35, 40, 45, 50],
           BucketizedColumn taxi_seconds [900, 1800, 2700, 3600],
           CrossedColumn [''trip_miles'', ''trip_seconds''] 10000, taxi_hour, taxi_company],
          [EmbeddingColumn taxi_company 10, taxi_miles, taxi_seconds])"
  by (simp add: taxi_extended taxi_wide_and_deep)

section \<open>Switching use_wide_columns off\<close>

lemma column_items_sparse_toggle:
  assumes "base_column column" and "use_wide_columns a" and "\<not> use_wide_columns b"
  shows "filter (\<lambda>c. \<not> isIdentityCategoricalColumn c \<and> \<not> isVocabularyListCategoricalColumn c)
           (filter (\<lambda>c. isVocabularyListCategoricalColumn c \<or> isIdentityCategoricalColumn c \<or>
                         isBucketizedColumn c \<or> isCrossedColumn c)
              (column_items a column)) =
         filter (\<lambda>c. isVocabularyListCategoricalColumn c \<or> isIdentityCategoricalColumn c \<or>
                      isBucketizedColumn c \<or> isCrossedColumn c)
           (column_items b column)"
  using assms
  by (cases column)
    (simp_all add: column_items_def embedding_columns_def base_column_def split: sum.splits)

lemma column_items_dense_toggle:
  assumes "base_column column"
    and "embed_categorical_columns a = embed_categorical_columns b"
    and "use_indicator_columns a = use_indicator_columns b"
  shows "filter (\<lambda>c. isNumericColumn c \<or> isEmbeddingColumn c \<or> isIndicatorColumn c)
           (column_items a column) =
         filter (\<lambda>c. isNumericColumn c \<or> isEmbeddingColumn c \<or> isIndicatorColumn c)
           (column_items b column)"
  using assms
  by (cases column)
    (simp_all add: column_items_def embedding_columns_def base_column_def split: sum.splits)

text \<open>
  C3, as amended. With the other two flags fixed, switching \<^verbatim>\<open>use_wide_columns\<close>
  from true to false removes from the wide list exactly its identity-categorical and
  vocabulary-categorical columns, which are the columns passed through; the
  bucketized and crossed columns stay, in their order, and the deep list is the same.
\<close>

theorem toggle_use_wide_columns:
  assumes "use_wide_columns a" and "\<not> use_wide_columns b"
    and "embed_categorical_columns a = embed_categorical_columns b"
    and "use_indicator_columns a = use_indicator_columns b"
    and "create_wide_and_deep_columns md a = Inr (wide, deep)"
  shows "create_wide_and_deep_columns md b =
           Inr (filter (\<lambda>column. \<not> isIdentityCategoricalColumn column \<and>
                                  \<not> isVocabularyListCategoricalColumn column) wide,
                deep)"
proof -
  let ?fc = "create_feature_columns md"
  let ?S = "\<lambda>c. isVocabularyListCategoricalColumn c \<or> isIdentityCategoricalColumn c \<or>
                 isBucketizedColumn c \<or> isCrossedColumn c"
  let ?D = "\<lambda>c. isNumericColumn c \<or> isEmbeddingColumn c \<or> isIndicatorColumn c"
  let ?N = "\<lambda>c. \<not> isIdentityCategoricalColumn c \<and> \<not> isVocabularyListCategoricalColumn c"
  let ?ea = "\<lambda>(column_name, column). column_items a column"
  let ?eb = "\<lambda>(column_name, column). column_items b column"
  have base: "\<And>p. p \<in> set ?fc \<Longrightarrow> base_column (snd p)"
    using create_feature_columns_base [of md] by blast
  have sparse: "filter ?N (filter ?S (concat (map ?ea ?fc))) = filter ?S (concat (map ?eb ?fc))"
  proof -
    have "filter ?S (concat (map ?eb ?fc)) = concat (map (\<lambda>p. filter ?S (?eb p)) ?fc)"
      by (rule filter_concat_map) simp
    moreover have "filter ?S (concat (map ?ea ?fc)) = concat (map (\<lambda>p. filter ?S (?ea p)) ?fc)"
      by (rule filter_concat_map) simp
    moreover have "filter ?N (concat (map (\<lambda>p. filter ?S (?ea p)) ?fc)) =
                   concat (map (\<lambda>p. filter ?S (?eb p)) ?fc)"
    proof (rule filter_concat_map)
      fix p assume "p \<in> set ?fc"
      then have "base_column (snd p)" by (rule base)
      then show "filter ?N (filter ?S (?ea p)) = filter ?S (?eb p)"
        using column_items_sparse_toggle [OF _ assms(1) assms(2), of "snd p"]
        by (simp add: split_beta)
    qed
    ultimately show ?thesis by simp
  qed
  have dense: "filter ?D (concat (map ?ea ?fc)) = filter ?D (concat (map ?eb ?fc))"
  proof -
    have "filter ?D (concat (map ?eb ?fc)) = concat (map (\<lambda>p. filter ?D (?eb p)) ?fc)"
      by (rule filter_concat_map) simp
    moreover have "filter ?D (concat (map ?ea ?fc)) = concat (map (\<lambda>p. filter ?D (?eb p)) ?fc)"
    proof (rule filter_concat_map)
      fix p assume "p \<in> set ?fc"
      then have "base_column (snd p)" by (rule base)
      then show "filter ?D (?ea p) = filter ?D (?eb p)"
        using column_items_dense_toggle [OF _ assms(3) assms(4), of "snd p"]
        by (simp add: split_beta)
    qed
    ultimately show ?thesis by simp
  qed
  from assms(5) obtain extended where
    ext: "extend_feature_columns ?fc a = Inr extended"
    and res: "get_sparse_and_dense_columns extended = (wide, deep)"
    by (rule create_wide_and_deep_columns_InrD)
  from ext obtain trip_miles trip_seconds company where
    keys: "dict_get ?fc ''trip_miles'' = Some trip_miles"
      "dict_get ?fc ''trip_seconds'' = Some trip_seconds"
      "dict_get ?fc ''company'' = Some company"
    and no_a: "\<forall>p \<in> set ?fc. \<not> overflows a (snd p)"
    and extended: "extended =
      [BucketizedColumn trip_miles [5, 10, 15, 20, 25, 30, 35, 40, 45, 50],
       BucketizedColumn trip_seconds [900, 1800, 2700, 3600],
       CrossedColumn [''trip_miles'', ''trip_seconds''] 10000,
       EmbeddingColumn company 10] @ concat (map ?ea ?fc)"
    by (rule extend_feature_columns_InrD)
  have no_b: "\<forall>p \<in> set ?fc. \<not> overflows b (snd p)"
    using no_a by (simp add: overflows_def assms(3))
  have ext_b: "extend_feature_columns ?fc b =
      Inr ([BucketizedColumn trip_miles [5, 10, 15, 20, 25, 30, 35, 40, 45, 50],
            BucketizedColumn trip_seconds [900, 1800, 2700, 3600],
            CrossedColumn [''trip_miles'', ''trip_seconds''] 10000,
            EmbeddingColumn company 10] @ concat (map ?eb ?fc))"
    by (rule extend_feature_columns_InrI [OF keys no_b])
  from res have wide: "wide =
      [BucketizedColumn trip_miles [5, 10, 15, 20, 25, 30, 35, 40, 45, 50],
       BucketizedColumn trip_seconds [900, 1800, 2700, 3600],
       CrossedColumn [''trip_miles'', ''trip_seconds''] 10000] @
      filter ?S (concat (map ?ea ?fc))"
    and deep: "deep = EmbeddingColumn company 10 # filter ?D (concat (map ?ea ?fc))"
    by (simp_all add: extended get_sparse_and_dense_columns_def)
  show ?thesis
    using sparse dense
    by (simp add: create_wide_and_deep_columns_def ext_b get_sparse_and_dense_columns_def
        wide deep)
qed

text \<open>The theorem at the concrete metadata module, with indicator columns on.\<close>

theorem toggle_use_wide_columns_witness:
  "use_wide_columns (flags False True True) \<and> \<not> use_wide_columns (flags False True False) \<and>
   create_wide_and_deep_columns taxi_metadata (flags False True True) =
     Inr ([BucketizedColumn taxi_miles [5, 10, 15, 20, 25, 30, 35, 40, 45, 50],
           BucketizedColumn taxi_seconds [900, 1800, 2700, 3600],
           CrossedColumn [''trip_miles'', ''trip_seconds''] 10000, taxi_hour, taxi_company],
          [EmbeddingColumn taxi_company 10, taxi_miles, taxi_seconds, IndicatorColumn taxi_hour,
           IndicatorColumn taxi_company, IndicatorColumn taxi_tract]) \<and>
   create_wide_and_deep_columns taxi_metadata (flags False True False) =
     Inr ([BucketizedColumn taxi_miles [5, 10, 15, 20, 25, 30, 35, 40, 45, 50],
           BucketizedColumn taxi_seconds [900, 1800, 2700, 3600],
           CrossedColumn [''trip_miles'', ''trip_seconds''] 10000],
          [EmbeddingColumn taxi_company 10, taxi_miles, taxi_seconds, IndicatorColumn taxi_hour,
           IndicatorColumn taxi_company, IndicatorColumn taxi_tract])"
proof -
  have on: "use_wide_columns (flags False True True)" by (simp add: flags_def)
  have off: "\<not> use_wide_columns (flags False True False)" by (simp add: flags_def)
  have embed: "embed_categorical_columns (flags False True True) =
               embed_categorical_columns (flags False True False)" by (simp add: flags_def)
  have ind: "use_indicator_columns (flags False True True) =
             use_indicator_columns (flags False True False)" by (simp add: flags_def)
  have res: "create_wide_and_deep_columns taxi_metadata (flags False True True) =
     Inr ([BucketizedColumn taxi_miles [5, 10, 15, 20, 25, 30, 35, 40, 45, 50],
           BucketizedColumn taxi_seconds [900, 1800, 2700, 3600],
           CrossedColumn [''trip_miles'', ''trip_seconds''] 10000, taxi_hour, taxi_company],
          [EmbeddingColumn taxi_company 10, taxi_miles, taxi_seconds, IndicatorColumn taxi_hour,
           IndicatorColumn taxi_company, IndicatorColumn taxi_tract])"
    by (simp add: taxi_wide_and_deep)
  from toggle_use_wide_columns [OF on off embed ind res] on off res show ?thesis
    by simp
qed

text \<open>
  The statement of the specification fails: the identity column \<^verbatim>\<open>trip_start_hour\<close> and the
  vocabulary column \<^verbatim>\<open>company\<close> are in the wide list with the flag on and are not
  in it with the flag off.
\<close>

theorem identity_column_leaves_wide_list:
  "create_wide_and_deep_columns taxi_metadata (flags False False True) =
     Inr ([BucketizedColumn taxi_miles [5, 10, 15, 20, 25, 30, 35, 40, 45, 50],
           BucketizedColumn taxi_seconds [900, 1800, 2700, 3600],
           CrossedColumn [''trip_miles'', ''trip_seconds''] 10000, taxi_hour, taxi_company],
          [EmbeddingColumn taxi_company 10, taxi_miles, taxi_seconds]) \<and>
   create_wide_and_deep_columns taxi_metadata (flags False False False) =
     Inr ([BucketizedColumn taxi_miles [5, 10, 15, 20, 25, 30, 35, 40, 45, 50],
           BucketizedColumn taxi_seconds [900, 1800, 2700, 3600],
           CrossedColumn [''trip_miles'', ''trip_seconds''] 10000],
          [EmbeddingColumn taxi_company 10, taxi_miles, taxi_seconds])"
  by (simp add: taxi_wide_and_deep)

section \<open>The embeddings of the categorical columns\<close>

lemma column_items_embeddings:
  assumes "base_column column"
  shows "filter isEmbeddingColumn (column_items args column) =
           (if embed_categorical_columns args then embedding_columns column else [])"
  using assms
  by (cases column)
    (simp_all add: column_items_def embedding_columns_def base_column_def split: sum.splits)

lemma column_items_not_embeddings:
  assumes "use_indicator_columns a = use_indicator_columns b"
    and "use_wide_columns a = use_wide_columns b"
  shows "filter (\<lambda>c. \<not> isEmbeddingColumn c) (column_items a column) =
         filter (\<lambda>c. \<not> isEmbeddingColumn c) (column_items b column)"
  using assms
  by (cases column)
    (simp_all add: column_items_def embedding_columns_def split: sum.splits)

lemma embedding_columns_small:
  assumes "column_vocab_size column \<le> 2 ^ 52"
  shows "embedding_columns column = categorical_embedding column"
  using assms
  by (cases column) (simp_all add: embedding_columns_def math_ceil_sqrt_small)

lemma not_overflows_small:
  assumes "column_vocab_size column \<le> 2 ^ 52"
  shows "\<not> overflows args column"
  using assms by (simp add: overflows_def math_ceil_sqrt_small)

lemma extend_feature_columns_embeddings:
  assumes "extend_feature_columns (create_feature_columns md) args = Inr extended"
    and "dict_get (create_feature_columns md) ''company'' = Some company"
  shows "filter isEmbeddingColumn extended =
           EmbeddingColumn company 10 #
           (if embed_categorical_columns args
            then concat (map (\<lambda>(column_name, column). embedding_columns column)
                           (create_feature_columns md))
            else [])"
proof -
  let ?fc = "create_feature_columns md"
  let ?e = "\<lambda>(column_name, column). column_items args column"
  have base: "\<And>p. p \<in> set ?fc \<Longrightarrow> base_column (snd p)"
    using create_feature_columns_base [of md] by blast
  have "filter isEmbeddingColumn (concat (map ?e ?fc)) =
          concat (map (\<lambda>p. if embed_categorical_columns args
                            then embedding_columns (snd p) else []) ?fc)"
  proof (rule filter_concat_map)
    fix p assume "p \<in> set ?fc"
    then have "base_column (snd p)" by (rule base)
    then show "filter isEmbeddingColumn (?e p) =
                 (if embed_categorical_columns args then embedding_columns (snd p) else [])"
      by (simp add: split_beta column_items_embeddings)
  qed
  then have emb: "filter isEmbeddingColumn (concat (map ?e ?fc)) =
          (if embed_categorical_columns args
           then concat (map (\<lambda>(column_name, column). embedding_columns column) ?fc)
           else [])"
    by (simp add: case_prod_unfold)
  from assms(1) obtain trip_miles trip_seconds company' where
    "dict_get ?fc ''company'' = Some company'"
    and "extended =
      [BucketizedColumn trip_miles [5, 10, 15, 20, 25, 30, 35, 40, 45, 50],
       BucketizedColumn trip_seconds [900, 1800, 2700, 3600],
       CrossedColumn [''trip_miles'', ''trip_seconds''] 10000,
       EmbeddingColumn company' 10] @ concat (map ?e ?fc)"
    by (rule extend_feature_columns_InrD)
  with assms(2) emb show ?thesis by simp
qed

lemma embedding_columns_concat_small:
  assumes "\<forall>p \<in> set feature_columns. column_vocab_size (snd p) \<le> 2 ^ 52"
  shows "concat (map (\<lambda>(column_name, column). embedding_columns column) feature_columns) =
         concat (map (\<lambda>(column_name, column). categorical_embedding column) feature_columns)"
proof -
  have "map (\<lambda>(column_name, column). embedding_columns column) feature_columns =
        map (\<lambda>(column_name, column). categorical_embedding column) feature_columns"
  proof (rule map_cong [OF refl])
    fix p assume "p \<in> set feature_columns"
    with assms have "column_vocab_size (snd p) \<le> 2 ^ 52" by blast
    then show "(case p of (column_name, column) \<Rightarrow> embedding_columns column) =
               (case p of (column_name, column) \<Rightarrow> categorical_embedding column)"
      by (simp add: split_beta embedding_columns_small)
  qed
  then show ?thesis by (rule arg_cong)
qed

text \<open>
  C4, as amended. Let every bucket count and every vocabulary size of the dict be at
  most \<open>2 ^ 52\<close>. With the other two flags fixed, setting
  \<^verbatim>\<open>embed_categorical_columns\<close> adds to the extended list exactly one embedding for
  each identity-categorical and each vocabulary-categorical column of the dict, in
  the order of the dict and of dimension the ceiling of the square root of the
  number of buckets or of the length of the vocabulary list; a hashed column gets no
  embedding, and the columns that are not embeddings are the same with and without
  the flag. Beyond the bound the double-precision square root can give another
  dimension, or the computation can raise \<^verbatim>\<open>OverflowError\<close>.
\<close>

theorem embed_flag_adds_embeddings:
  assumes "embed_categorical_columns a" and "\<not> embed_categorical_columns b"
    and "use_indicator_columns a = use_indicator_columns b"
    and "use_wide_columns a = use_wide_columns b"
    and "\<forall>p \<in> set (create_feature_columns md). column_vocab_size (snd p) \<le> 2 ^ 52"
    and "extend_feature_columns (create_feature_columns md) b = Inr extended_b"
  shows "\<exists>extended_a.
           extend_feature_columns (create_feature_columns md) a = Inr extended_a \<and>
           filter isEmbeddingColumn extended_a =
             filter isEmbeddingColumn extended_b @
             concat (map (\<lambda>(column_name, column). categorical_embedding column)
                       (create_feature_columns md)) \<and>
           filter (\<lambda>column. \<not> isEmbeddingColumn column) extended_a =
             filter (\<lambda>column. \<not> isEmbeddingColumn column) extended_b"
proof -
  let ?fc = "create_feature_columns md"
  let ?ea = "\<lambda>(column_name, column). column_items a column"
  let ?eb = "\<lambda>(column_name, column). column_items b column"
  let ?N = "\<lambda>c. \<not> isEmbeddingColumn c"
  from assms(6) obtain trip_miles trip_seconds company where
    keys: "dict_get ?fc ''trip_miles'' = Some trip_miles"
      "dict_get ?fc ''trip_seconds'' = Some trip_seconds"
      "dict_get ?fc ''company'' = Some company"
    and b: "extended_b =
      [BucketizedColumn trip_miles [5, 10, 15, 20, 25, 30, 35, 40, 45, 50],
       BucketizedColumn trip_seconds [900, 1800, 2700, 3600],
       CrossedColumn [''trip_miles'', ''trip_seconds''] 10000,
       EmbeddingColumn company 10] @ concat (map ?eb ?fc)"
    by (rule extend_feature_columns_InrD)
  let ?head = "[BucketizedColumn trip_miles [5, 10, 15, 20, 25, 30, 35, 40, 45, 50],
       BucketizedColumn trip_seconds [900, 1800, 2700, 3600],
       CrossedColumn [''trip_miles'', ''trip_seconds''] 10000,
       EmbeddingColumn company 10]"
  have no_a: "\<forall>p \<in> set ?fc. \<not> overflows a (snd p)"
    using assms(5) not_overflows_small by blast
  have a: "extend_feature_columns ?fc a = Inr (?head @ concat (map ?ea ?fc))"
    by (rule extend_feature_columns_InrI [OF keys no_a])
  have same: "concat (map (\<lambda>(column_name, column). embedding_columns column) ?fc) =
              concat (map (\<lambda>(column_name, column). categorical_embedding column) ?fc)"
  proof -
    have "map (\<lambda>(column_name, column). embedding_columns column) ?fc =
          map (\<lambda>(column_name, column). categorical_embedding column) ?fc"
    proof (rule map_cong [OF refl])
      fix p assume "p \<in> set ?fc"
      with assms(5) have "column_vocab_size (snd p) \<le> 2 ^ 52" by blast
      then show "(case p of (column_name, column) \<Rightarrow> embedding_columns column) =
                 (case p of (column_name, column) \<Rightarrow> categorical_embedding column)"
        by (simp add: split_beta embedding_columns_small)
    qed
    then show ?thesis by (rule arg_cong)
  qed
  have emb_a: "filter isEmbeddingColumn (?head @ concat (map ?ea ?fc)) =
      EmbeddingColumn company 10 #
      concat (map (\<lambda>(column_name, column). categorical_embedding column) ?fc)"
    using extend_feature_columns_embeddings [OF a keys(3)] assms(1) same by simp
  have emb_b: "filter isEmbeddingColumn extended_b = [EmbeddingColumn company 10]"
    using extend_feature_columns_embeddings [OF assms(6) keys(3)] assms(2) by simp
  have "filter ?N (concat (map ?ea ?fc)) = concat (map (\<lambda>p. filter ?N (?eb p)) ?fc)"
  proof (rule filter_concat_map)
    fix p
    show "filter ?N (?ea p) = filter ?N (?eb p)"
      using column_items_not_embeddings [OF assms(3) assms(4), of "snd p"]
      by (simp add: split_beta)
  qed
  moreover have "filter ?N (concat (map ?eb ?fc)) = concat (map (\<lambda>p. filter ?N (?eb p)) ?fc)"
    by (rule filter_concat_map) simp
  ultimately have rest: "filter ?N (?head @ concat (map ?ea ?fc)) = filter ?N extended_b"
    by (simp add: b)
  from a emb_a emb_b rest show ?thesis by simp
qed

text \<open>The theorem at the concrete metadata module, with indicator columns on.\<close>

theorem embed_flag_adds_embeddings_witness:
  "embed_categorical_columns (flags True True False) \<and>
   \<not> embed_categorical_columns (flags False True False) \<and>
   extend_feature_columns (create_feature_columns taxi_metadata) (flags False True False) =
     Inr (taxi_head @
          [taxi_miles, taxi_seconds, IndicatorColumn taxi_hour, IndicatorColumn taxi_company,
           IndicatorColumn taxi_tract]) \<and>
   (\<exists>extended_a.
      extend_feature_columns (create_feature_columns taxi_metadata) (flags True True False) =
        Inr extended_a \<and>
      filter isEmbeddingColumn extended_a =
        [EmbeddingColumn taxi_company 10,
         EmbeddingColumn taxi_hour 5, EmbeddingColumn taxi_company 2] \<and>
      filter (\<lambda>column. \<not> isEmbeddingColumn column) extended_a =
        [BucketizedColumn taxi_miles [5, 10, 15, 20, 25, 30, 35, 40, 45, 50],
         BucketizedColumn taxi_seconds [900, 1800, 2700, 3600],
         CrossedColumn [''trip_miles'', ''trip_seconds''] 10000,
         taxi_miles, taxi_seconds, IndicatorColumn taxi_hour, IndicatorColumn taxi_company,
         IndicatorColumn taxi_tract])"
proof -
  have on: "embed_categorical_columns (flags True True False)" by (simp add: flags_def)
  have off: "\<not> embed_categorical_columns (flags False True False)" by (simp add: flags_def)
  have ind: "use_indicator_columns (flags True True False) =
             use_indicator_columns (flags False True False)" by (simp add: flags_def)
  have wide: "use_wide_columns (flags True True False) =
              use_wide_columns (flags False True False)" by (simp add: flags_def)
  have small: "\<forall>p \<in> set (create_feature_columns taxi_metadata).
                 column_vocab_size (snd p) \<le> 2 ^ 52"
    by (simp add: taxi_feature_columns)
  have ext: "extend_feature_columns (create_feature_columns taxi_metadata)
               (flags False True False) =
     Inr (taxi_head @
          [taxi_miles, taxi_seconds, IndicatorColumn taxi_hour, IndicatorColumn taxi_company,
           IndicatorColumn taxi_tract])"
    by (simp add: taxi_extended)
  have dim_hour: "nat \<lceil>sqrt 24\<rceil> = 5"
    using nat_ceiling_sqrt_eqI [of 24 5] by simp
  have dim_company: "nat \<lceil>sqrt 3\<rceil> = 2"
    using nat_ceiling_sqrt_eqI [of 3 2] by simp
  from embed_flag_adds_embeddings [OF on off ind wide small ext] on off ext show ?thesis
    by (simp add: taxi_feature_columns dim_hour dim_company)
qed

text \<open>
  The statement of the specification fails for hashed columns: setting the flag adds the
  embeddings of \<^verbatim>\<open>trip_start_hour\<close> and of \<^verbatim>\<open>company\<close>, and none of the hashed
  column \<^verbatim>\<open>pickup_census_tract\<close>.
\<close>

theorem hashed_column_not_embedded:
  "extend_feature_columns (create_feature_columns taxi_metadata) (flags False False False) =
     Inr (taxi_head @ [taxi_miles, taxi_seconds]) \<and>
   extend_feature_columns (create_feature_columns taxi_metadata) (flags True False False) =
     Inr (taxi_head @
          [taxi_miles, taxi_seconds, EmbeddingColumn taxi_hour 5, EmbeddingColumn taxi_company 2])"
  by (simp add: taxi_extended)

section \<open>Which derived columns the flags gate\<close>

lemma column_items_no_indicator:
  assumes "base_column column" and "\<not> use_indicator_columns args"
  shows "filter isIndicatorColumn (column_items args column) = []"
  using assms
  by (cases column)
    (simp_all add: column_items_def embedding_columns_def base_column_def split: sum.splits)

lemma column_items_no_bucketized:
  assumes "base_column column"
  shows "filter (\<lambda>c. isBucketizedColumn c \<or> isCrossedColumn c) (column_items args column) = []"
  using assms
  by (cases column)
    (simp_all add: column_items_def embedding_columns_def base_column_def split: sum.splits)

text \<open>
  C5, as amended. When \<open>extend_feature_columns\<close> returns, the two bucketized
  columns, the crossed column and the embedding of \<^verbatim>\<open>company\<close> of dimension 10 are
  in the extended list under every configuration of the flags, and they are its only
  bucketized and crossed columns. The flags gate the rest: the other embeddings are
  those of the identity and vocabulary columns, with the dimension the code
  computes (the ceiling of the real square root when all sizes are at most
  \<open>2 ^ 52\<close>), and are present only with \<^verbatim>\<open>embed_categorical_columns\<close>; an
  indicator column is present only with \<^verbatim>\<open>use_indicator_columns\<close>.
\<close>

theorem derived_columns_gating:
  assumes "extend_feature_columns (create_feature_columns md) args = Inr extended"
  shows "\<exists>trip_miles trip_seconds company.
           dict_get (create_feature_columns md) ''trip_miles'' = Some trip_miles \<and>
           dict_get (create_feature_columns md) ''trip_seconds'' = Some trip_seconds \<and>
           dict_get (create_feature_columns md) ''company'' = Some company \<and>
           filter (\<lambda>column. isBucketizedColumn column \<or> isCrossedColumn column) extended =
             [BucketizedColumn trip_miles [5, 10, 15, 20, 25, 30, 35, 40, 45, 50],
              BucketizedColumn trip_seconds [900, 1800, 2700, 3600],
              CrossedColumn [''trip_miles'', ''trip_seconds''] 10000] \<and>
           filter isEmbeddingColumn extended =
             EmbeddingColumn company 10 #
             (if embed_categorical_columns args
              then concat (map (\<lambda>(column_name, column). embedding_columns column)
                             (create_feature_columns md))
              else []) \<and>
           ((\<forall>p \<in> set (create_feature_columns md). column_vocab_size (snd p) \<le> 2 ^ 52) \<longrightarrow>
            filter isEmbeddingColumn extended =
              EmbeddingColumn company 10 #
              (if embed_categorical_columns args
               then concat (map (\<lambda>(column_name, column). categorical_embedding column)
                              (create_feature_columns md))
               else [])) \<and>
           (\<not> use_indicator_columns args \<longrightarrow> filter isIndicatorColumn extended = [])"
proof -
  let ?fc = "create_feature_columns md"
  let ?e = "\<lambda>(column_name, column). column_items args column"
  have base: "\<And>p. p \<in> set ?fc \<Longrightarrow> base_column (snd p)"
    using create_feature_columns_base [of md] by blast
  from assms obtain trip_miles trip_seconds company where
    keys: "dict_get ?fc ''trip_miles'' = Some trip_miles"
      "dict_get ?fc ''trip_seconds'' = Some trip_seconds"
      "dict_get ?fc ''company'' = Some company"
    and ext: "extended =
      [BucketizedColumn trip_miles [5, 10, 15, 20, 25, 30, 35, 40, 45, 50],
       BucketizedColumn trip_seconds [900, 1800, 2700, 3600],
       CrossedColumn [''trip_miles'', ''trip_seconds''] 10000,
       EmbeddingColumn company 10] @ concat (map ?e ?fc)"
    by (rule extend_feature_columns_InrD)
  have bc: "filter (\<lambda>c. isBucketizedColumn c \<or> isCrossedColumn c) (concat (map ?e ?fc)) = []"
  proof (rule filter_concat_map_Nil)
    fix p assume "p \<in> set ?fc"
    then have "base_column (snd p)" by (rule base)
    then show "filter (\<lambda>c. isBucketizedColumn c \<or> isCrossedColumn c) (?e p) = []"
      by (simp add: split_beta column_items_no_bucketized)
  qed
  have ind: "filter isIndicatorColumn (concat (map ?e ?fc)) = []"
    if "\<not> use_indicator_columns args"
  proof (rule filter_concat_map_Nil)
    fix p assume "p \<in> set ?fc"
    then have "base_column (snd p)" by (rule base)
    then show "filter isIndicatorColumn (?e p) = []"
      using that by (simp add: split_beta column_items_no_indicator)
  qed
  have c1: "filter (\<lambda>column. isBucketizedColumn column \<or> isCrossedColumn column) extended =
             [BucketizedColumn trip_miles [5, 10, 15, 20, 25, 30, 35, 40, 45, 50],
              BucketizedColumn trip_seconds [900, 1800, 2700, 3600],
              CrossedColumn [''trip_miles'', ''trip_seconds''] 10000]"
    by (simp add: ext bc)
  have c2: "\<not> use_indicator_columns args \<longrightarrow> filter isIndicatorColumn extended = []"
    by (simp add: ext ind)
  note c3 = extend_feature_columns_embeddings [OF assms keys(3)]
  have c4: "(\<forall>p \<in> set ?fc. column_vocab_size (snd p) \<le> 2 ^ 52) \<longrightarrow>
            filter isEmbeddingColumn extended =
              EmbeddingColumn company 10 #
              (if embed_categorical_columns args
               then concat (map (\<lambda>(column_name, column). categorical_embedding column) ?fc)
               else [])"
    using c3 embedding_columns_concat_small [of ?fc] by simp
  from keys c1 c2 c3 c4 show ?thesis
    by blast
qed

text \<open>The theorem at the concrete metadata module, with only wide columns on.\<close>

theorem derived_columns_gating_witness:
  "extend_feature_columns (create_feature_columns taxi_metadata) (flags False False True) =
     Inr (taxi_head @ [taxi_miles, taxi_seconds, taxi_hour, taxi_company, taxi_tract]) \<and>
   filter isEmbeddingColumn
     (taxi_head @ [taxi_miles, taxi_seconds, taxi_hour, taxi_company, taxi_tract]) =
     [EmbeddingColumn taxi_company 10] \<and>
   filter isIndicatorColumn
     (taxi_head @ [taxi_miles, taxi_seconds, taxi_hour, taxi_company, taxi_tract]) = []"
proof -
  have ext: "extend_feature_columns (create_feature_columns taxi_metadata)
               (flags False False True) =
     Inr (taxi_head @ [taxi_miles, taxi_seconds, taxi_hour, taxi_company, taxi_tract])"
    by (simp add: taxi_extended)
  from derived_columns_gating [OF ext] ext show ?thesis
    by (simp add: flags_def)
qed

text \<open>
  The statement of the specification fails: with the three flags off the extended list holds
  four derived columns.
\<close>

theorem derived_columns_without_flags:
  "extend_feature_columns (create_feature_columns taxi_metadata) (flags False False False) =
     Inr [BucketizedColumn taxi_miles [5, 10, 15, 20, 25, 30, 35, 40, 45, 50],
          BucketizedColumn taxi_seconds [900, 1800, 2700, 3600],
          CrossedColumn [''trip_miles'', ''trip_seconds''] 10000,
          EmbeddingColumn taxi_company 10, taxi_miles, taxi_seconds]"
  by (simp add: taxi_extended)

section \<open>Numeric columns\<close>




section \<open>Hashed columns\<close>

lemma column_items_derived_from_hashed:
  assumes "base_column column" and "c \<in> set (column_items args column)"
    and "source_column c = Some hashed" and "isHashedCategoricalColumn hashed"
  shows "c = IndicatorColumn hashed \<and> use_indicator_columns args"
proof (cases column)
  case (NumericColumn x11 x12)
  with assms show ?thesis by (auto simp add: column_items_def embedding_columns_def)
next
  case (IdentityCategoricalColumn x21 x22)
  with assms show ?thesis
    by (cases "math_ceil_sqrt x22")
      (auto simp add: column_items_def embedding_columns_def split: if_splits)
next
  case (VocabularyListCategoricalColumn x31 x32)
  with assms show ?thesis
    by (cases "math_ceil_sqrt (length x32)")
      (auto simp add: column_items_def embedding_columns_def split: if_splits)
next
  case (HashedCategoricalColumn x41 x42)
  with assms show ?thesis
    by (auto simp add: column_items_def embedding_columns_def split: if_splits)
qed (insert assms, simp_all add: base_column_def)

text \<open>
  C10, as amended. When \<open>create_wide_and_deep_columns\<close> returns, no hashed column
  is in the wide list or in the deep list. A column of the deep list that is derived
  from a hashed column is either its indicator, and then \<^verbatim>\<open>use_indicator_columns\<close>
  is set, or its embedding of dimension 10, and then the hashed column is the feature
  \<^verbatim>\<open>company\<close>.
\<close>

theorem hashed_columns_in_wide_and_deep:
  assumes "create_wide_and_deep_columns md args = Inr (wide, deep)"
  shows "(\<forall>c \<in> set wide \<union> set deep. \<not> isHashedCategoricalColumn c) \<and>
         (\<forall>c \<in> set deep. \<forall>hashed.
            source_column c = Some hashed \<and> isHashedCategoricalColumn hashed \<longrightarrow>
              c = IndicatorColumn hashed \<and> use_indicator_columns args \<or>
              c = EmbeddingColumn hashed 10 \<and>
              dict_get (create_feature_columns md) ''company'' = Some hashed)"
proof -
  let ?fc = "create_feature_columns md"
  let ?e = "\<lambda>(column_name, column). column_items args column"
  have base: "\<And>p. p \<in> set ?fc \<Longrightarrow> base_column (snd p)"
    using create_feature_columns_base [of md] by blast
  from assms obtain extended where
    ext: "extend_feature_columns ?fc args = Inr extended"
    and res: "get_sparse_and_dense_columns extended = (wide, deep)"
    by (rule create_wide_and_deep_columns_InrD)
  from ext obtain trip_miles trip_seconds company where
    company: "dict_get ?fc ''company'' = Some company"
    and extended: "extended =
      [BucketizedColumn trip_miles [5, 10, 15, 20, 25, 30, 35, 40, 45, 50],
       BucketizedColumn trip_seconds [900, 1800, 2700, 3600],
       CrossedColumn [''trip_miles'', ''trip_seconds''] 10000,
       EmbeddingColumn company 10] @ concat (map ?e ?fc)"
    by (rule extend_feature_columns_InrD)
  have none: "\<forall>c \<in> set wide \<union> set deep. \<not> isHashedCategoricalColumn c"
  proof
    fix c assume "c \<in> set wide \<union> set deep"
    with res show "\<not> isHashedCategoricalColumn c"
      by (cases c) (auto simp add: get_sparse_and_dense_columns_def Let_def)
  qed
  have derived: "c = IndicatorColumn hashed \<and> use_indicator_columns args \<or>
                 c = EmbeddingColumn hashed 10 \<and> dict_get ?fc ''company'' = Some hashed"
    if c: "c \<in> set deep" and src: "source_column c = Some hashed"
      and h: "isHashedCategoricalColumn hashed" for c hashed
  proof -
    from c res have dense: "isNumericColumn c \<or> isEmbeddingColumn c \<or> isIndicatorColumn c"
      and mem: "c \<in> set extended"
      by (auto simp add: get_sparse_and_dense_columns_def Let_def)
    from mem extended dense consider
      (head) "c = EmbeddingColumn company 10"
      | (loop) "c \<in> set (concat (map ?e ?fc))"
      by auto
    then show ?thesis
    proof cases
      case head
      with src company show ?thesis by simp
    next
      case loop
      then obtain p where p: "p \<in> set ?fc" and cp: "c \<in> set (column_items args (snd p))"
        by (auto simp add: set_concat_map_iff)
      from column_items_derived_from_hashed [OF base [OF p] cp src h] show ?thesis
        by simp
    qed
  qed
  from none derived show ?thesis by blast
qed

text \<open>The theorem at the metadata module with the hashed \<^verbatim>\<open>company\<close>.\<close>

theorem hashed_columns_in_wide_and_deep_witness:
  "create_wide_and_deep_columns hashed_company_metadata (flags False True False) =
     Inr ([BucketizedColumn taxi_miles [5, 10, 15, 20, 25, 30, 35, 40, 45, 50],
           BucketizedColumn taxi_seconds [900, 1800, 2700, 3600],
           CrossedColumn [''trip_miles'', ''trip_seconds''] 10000],
          [EmbeddingColumn (HashedCategoricalColumn ''company'' 100) 10,
           taxi_miles, taxi_seconds,
           IndicatorColumn (HashedCategoricalColumn ''company'' 100)]) \<and>
   use_indicator_columns (flags False True False) \<and>
   dict_get (create_feature_columns hashed_company_metadata) ''company'' =
     Some (HashedCategoricalColumn ''company'' 100)"
proof -
  have res: "create_wide_and_deep_columns hashed_company_metadata (flags False True False) =
     Inr ([BucketizedColumn taxi_miles [5, 10, 15, 20, 25, 30, 35, 40, 45, 50],
           BucketizedColumn taxi_seconds [900, 1800, 2700, 3600],
           CrossedColumn [''trip_miles'', ''trip_seconds''] 10000],
          [EmbeddingColumn (HashedCategoricalColumn ''company'' 100) 10,
           taxi_miles, taxi_seconds,
           IndicatorColumn (HashedCategoricalColumn ''company'' 100)])"
    by (simp add: create_wide_and_deep_columns_def hashed_company_feature_columns
        extend_feature_columns_def extend_column_def flags_def get_sparse_and_dense_columns_def)
  from hashed_columns_in_wide_and_deep [OF res] res show ?thesis
    by simp
qed

text \<open>
  The statement of the specification fails: with the three flags off, the embedding of the
  hashed column \<^verbatim>\<open>company\<close> is in the deep list, and it is not an indicator.
\<close>

theorem hashed_company_embedding_in_deep:
  "create_wide_and_deep_columns hashed_company_metadata (flags False False False) =
     Inr ([BucketizedColumn taxi_miles [5, 10, 15, 20, 25, 30, 35, 40, 45, 50],
           BucketizedColumn taxi_seconds [900, 1800, 2700, 3600],
           CrossedColumn [''trip_miles'', ''trip_seconds''] 10000],
          [EmbeddingColumn (HashedCategoricalColumn ''company'' 100) 10,
           taxi_miles, taxi_seconds])"
  by (simp add: create_wide_and_deep_columns_def hashed_company_feature_columns
      extend_feature_columns_def extend_column_def flags_def get_sparse_and_dense_columns_def)

end
